theory Spec2Isabelle
  imports Complex_Main
begin

section \<open>The Ayurvedic diet rule engine\<close>

text \<open>
  A shallow embedding of \<^verbatim>\<open>backend/src/services/nutrition.js\<close> and
  \<^verbatim>\<open>backend/src/services/ruleEngine.js\<close>.

  Conventions of the embedding:
  \<^item> a JavaScript number is an exact rational (\<open>rat\<close>); the results of
    \<^verbatim>\<open>Math.round\<close> are integers (\<open>int\<close>). IEEE rounding, NaN and the
    infinities are not modelled;
  \<^item> an object property that may be missing is an \<open>option\<close>; a list property that the
    source reads as \<^verbatim>\<open>x || []\<close> is a list, the missing one being the empty list;
  \<^item> a string is a list of 8-bit characters; letter case is the ASCII one;
  \<^item> a lookup in an object literal is a lookup among the keys the literal writes;
  \<^item> the clock the source reads (\<^verbatim>\<open>new Date()\<close>, \<^verbatim>\<open>Date.now()\<close>) is an explicit
    argument.
\<close>

subsection \<open>JavaScript primitives\<close>

definition js_round :: "rat \<Rightarrow> int" where
  \<comment> \<open>\<^verbatim>\<open>Math.round\<close>: the nearest integer, a tie going up.\<close>
  "js_round x = \<lfloor>x + 1 / 2\<rfloor>"

definition lower_char :: "char \<Rightarrow> char" where
  "lower_char c =
     (let n = (of_char c :: nat) in if 65 \<le> n \<and> n \<le> 90 then char_of (n + 32) else c)"

definition upper_char :: "char \<Rightarrow> char" where
  "upper_char c =
     (let n = (of_char c :: nat) in if 97 \<le> n \<and> n \<le> 122 then char_of (n - 32) else c)"

definition toLowerCase :: "string \<Rightarrow> string" where
  "toLowerCase s = map lower_char s"

definition toUpperCase :: "string \<Rightarrow> string" where
  "toUpperCase s = map upper_char s"

fun startsWith :: "string \<Rightarrow> string \<Rightarrow> bool" where
  "startsWith s [] = True"
| "startsWith [] (p # ps) = False"
| "startsWith (c # cs) (p # ps) = (c = p \<and> startsWith cs ps)"

fun str_includes :: "string \<Rightarrow> string \<Rightarrow> bool" where
  \<comment> \<open>\<^verbatim>\<open>String.prototype.includes\<close>: the second string occurs in the first.\<close>
  "str_includes [] p = (p = [])"
| "str_includes (c # cs) p = (startsWith (c # cs) p \<or> str_includes cs p)"

definition is_space :: "char \<Rightarrow> bool" where
  "is_space c = (c \<in> set [CHR '' '', CHR 0x09, CHR 0x0A, CHR 0x0B, CHR 0x0C, CHR 0x0D])"

definition trim :: "string \<Rightarrow> string" where
  "trim s = rev (dropWhile is_space (rev (dropWhile is_space s)))"

fun split_on :: "char \<Rightarrow> string \<Rightarrow> string \<Rightarrow> string list" where
  \<comment> \<open>\<^verbatim>\<open>s.split(c)\<close>, the piece under construction held reversed in the accumulator.\<close>
  "split_on sep acc [] = [rev acc]"
| "split_on sep acc (c # cs) =
     (if c = sep then rev acc # split_on sep [] cs else split_on sep (c # acc) cs)"

definition split_comma :: "string \<Rightarrow> string list" where
  "split_comma s = split_on (CHR '','') [] s"

fun or_str :: "string option \<Rightarrow> string option \<Rightarrow> string option" where
  \<comment> \<open>\<^verbatim>\<open>a || b\<close> on strings: a missing or empty \<open>a\<close> gives \<open>b\<close>.\<close>
  "or_str None b = b"
| "or_str (Some s) b = (if s = [] then b else Some s)"

fun str_or :: "string option \<Rightarrow> string \<Rightarrow> string" where
  \<comment> \<open>\<^verbatim>\<open>a || d\<close> with a string default.\<close>
  "str_or None d = d"
| "str_or (Some s) d = (if s = [] then d else s)"

fun show_nat :: "nat \<Rightarrow> string" where
  "show_nat n = (if n < 10 then [char_of (48 + n)] else show_nat (n div 10) @ [char_of (48 + n mod 10)])"

definition show_int :: "int \<Rightarrow> string" where
  \<comment> \<open>The decimal numeral a template literal prints for an integer.\<close>
  "show_int i = (if i < 0 then CHR ''-'' # show_nat (nat (- i)) else show_nat (nat i))"

fun or_num :: "rat option \<Rightarrow> rat \<Rightarrow> rat" where
  \<comment> \<open>\<^verbatim>\<open>a || d\<close> on numbers: a missing or zero \<open>a\<close> gives \<open>d\<close>.\<close>
  "or_num None d = d"
| "or_num (Some x) d = (if x = 0 then d else x)"

subsection \<open>Data model\<close>

record food =
  food_id :: "string option"
  id_field :: "string option"
  oid :: "string option"
  name :: "string option"
  dosha_impact :: "string option"
  dosha_tags :: "string option"
  tastes :: "string option"
  rasa :: "string option"
  qualities :: "string option"
  energy :: "string option"
  virya :: "string option"
  season :: "string option"
  calories_100g :: "rat option"
  calories_per_100g :: "rat option"
  calories :: "rat option"
  protein_100g :: "rat option"
  protein :: "rat option"
  carbs_100g :: "rat option"
  fat_100g :: "rat option"
  food_type :: "string option"
  notes_field :: "string option"

text \<open>
  \<open>id_field\<close>, \<open>oid\<close>, \<open>food_type\<close> and \<open>notes_field\<close> are the properties \<^verbatim>\<open>id\<close>, \<^verbatim>\<open>_id\<close> (a
  string already), \<^verbatim>\<open>type\<close> and \<^verbatim>\<open>notes\<close> of the source. In a profile, \<open>dob\<close> is the birth date as the
  timestamp \<^verbatim>\<open>Date.parse\<close> gives it, in milliseconds, and \<open>disliked\<close> is
  \<^verbatim>\<open>preferences.disliked\<close>.
\<close>

record profile =
  dosha_result :: "string option"
  sex :: "string option"
  height_cm :: "rat option"
  weight_kg :: "rat option"
  age_years :: "rat option"
  dob :: "int option"
  activity_level :: "string option"
  health_goals :: "string list"
  disliked :: "string list"
  allergies :: "string list"
  medical_conditions :: "string list"

record macro_split =
  protein_pct :: int
  carbs_pct :: int
  fats_pct :: int

record food_macros =
  m_calories :: int
  m_protein :: rat
  m_carbs :: rat
  m_fats :: rat

subsection \<open>nutrition.js\<close>

definition calculateBMR :: "int \<Rightarrow> profile \<Rightarrow> rat" where
  "calculateBMR now p =
     (let sx = (case sex p of None \<Rightarrow> ''M'' | Some x \<Rightarrow> x);
          h = (case height_cm p of None \<Rightarrow> 170 | Some x \<Rightarrow> x);
          w = (case weight_kg p of None \<Rightarrow> 70 | Some x \<Rightarrow> x);
          age = (case age_years p of
                   Some a \<Rightarrow> a
                 | None \<Rightarrow> (case dob p of
                              Some d \<Rightarrow> of_int \<lfloor>(of_int (now - d) :: rat) / 31557600000\<rfloor>
                            | None \<Rightarrow> 25));
          s = (if sx = ''M'' then 5 else -161)
      in 10 * w + 6.25 * h - 5 * age + s)"

definition factors :: "(string \<times> rat) list" where
  "factors = [(''sedentary'', 1.2), (''light'', 1.375), (''moderate'', 1.55),
              (''active'', 1.725), (''very_active'', 1.9)]"

definition activityFactor :: "profile \<Rightarrow> rat" where
  "activityFactor p =
     (let al = (case activity_level p of None \<Rightarrow> ''moderate'' | Some x \<Rightarrow> x)
      in case map_of factors al of Some v \<Rightarrow> v | None \<Rightarrow> 1.55)"

definition calculateTDEE :: "int \<Rightarrow> profile \<Rightarrow> int" where
  "calculateTDEE now p = js_round (calculateBMR now p * activityFactor p)"

definition calculateTargetCalories :: "int \<Rightarrow> profile \<Rightarrow> int" where
  "calculateTargetCalories now p =
     (let tdee = calculateTDEE now p; goals = health_goals p in
      if ''weight_loss'' \<in> set goals \<or> ''Weight Loss'' \<in> set goals
        then js_round (of_int tdee * 0.8)
      else if ''weight_gain'' \<in> set goals \<or> ''Weight Gain'' \<in> set goals
        then js_round (of_int tdee * 1.15)
      else if ''muscle_gain'' \<in> set goals
        then js_round (of_int tdee * 1.1)
      else tdee)"

definition getMacroTargets :: "profile \<Rightarrow> macro_split" where
  "getMacroTargets p =
     (let goals = health_goals p;
          dosha = str_or (dosha_result p) ''Vata''
      in
      if ''weight_loss'' \<in> set goals
        then \<lparr>protein_pct = 30, carbs_pct = 40, fats_pct = 30\<rparr>
      else if ''muscle_gain'' \<in> set goals
        then \<lparr>protein_pct = 25, carbs_pct = 50, fats_pct = 25\<rparr>
      else if str_includes dosha ''Vata''
        then \<lparr>protein_pct = 20, carbs_pct = 50, fats_pct = 30\<rparr>
      else if str_includes dosha ''Pitta''
        then \<lparr>protein_pct = 20, carbs_pct = 55, fats_pct = 25\<rparr>
      else if str_includes dosha ''Kapha''
        then \<lparr>protein_pct = 25, carbs_pct = 45, fats_pct = 30\<rparr>
      else \<lparr>protein_pct = 20, carbs_pct = 55, fats_pct = 25\<rparr>)"

definition calculateFoodMacros :: "food \<Rightarrow> int \<Rightarrow> food_macros" where
  "calculateFoodMacros fd grams =
     (let scale = (of_int grams :: rat) / 100 in
      \<lparr>m_calories = js_round (or_num (calories_100g fd) 0 * scale),
       m_protein = of_int (js_round (or_num (protein_100g fd) 0 * scale * 10)) / 10,
       m_carbs = of_int (js_round (or_num (carbs_100g fd) 0 * scale * 10)) / 10,
       m_fats = of_int (js_round (or_num (fat_100g fd) 0 * scale * 10)) / 10\<rparr>)"

definition distributions :: "(nat \<times> rat list) list" where
  "distributions = [(3, [0.30, 0.40, 0.30]), (4, [0.25, 0.35, 0.10, 0.30]),
                    (5, [0.20, 0.30, 0.10, 0.30, 0.10])]"

definition distributeMealCalories :: "rat \<Rightarrow> nat \<Rightarrow> int list" where
  "distributeMealCalories totalCalories mealCount =
     (let dist = (case map_of distributions mealCount of
                    Some d \<Rightarrow> d
                  | None \<Rightarrow> [0.30, 0.40, 0.30])
      in map (\<lambda>pct. js_round (totalCalories * pct)) dist)"


subsection \<open>ruleEngine.js: scoring\<close>

record scored_reasons =
  r_sDosha :: rat
  r_sSeason :: rat
  r_sNut :: rat
  r_season :: string

record scored =
  s_f :: food
  score :: rat
  reasons :: scored_reasons

definition inferDosha :: "profile \<Rightarrow> string" where
  "inferDosha p = str_or (dosha_result p) ''Vata''"

definition isContra :: "profile \<Rightarrow> food \<Rightarrow> bool" where
  "isContra p fd =
     (let conditions = medical_conditions p in
      if ''diabetes'' \<in> set conditions \<and> startsWith (toLowerCase (str_or (food_id fd) [])) ''i''
        then True
      else if ''hypertension'' \<in> set conditions \<and> str_includes (str_or (tastes fd) []) ''salty''
        then True
      else False)"

definition getSeasonFromMonth :: "nat \<Rightarrow> string" where
  "getSeasonFromMonth month =
     (if 3 \<le> month \<and> month \<le> 5 then ''spring''
      else if 6 \<le> month \<and> month \<le> 8 then ''monsoon''
      else if 9 \<le> month \<and> month \<le> 11 then ''autumn''
      else ''winter'')"

definition impactOf :: "food \<Rightarrow> string" where
  \<comment> \<open>\<^verbatim>\<open>(food.dosha_impact || food.dosha_tags || '').toString()\<close>\<close>
  "impactOf fd = str_or (or_str (dosha_impact fd) (dosha_tags fd)) []"

definition impactStep :: "string \<Rightarrow> food \<Rightarrow> rat \<Rightarrow> rat" where
  \<comment> \<open>Lines 109 to 111: the two updates of the score from the dosha-impact tags.\<close>
  "impactStep userDosha fd acc =
     (let impact = impactOf fd;
          acc = (if str_includes (toLowerCase impact) ''balancing''
                    \<or> str_includes (toLowerCase impact) ''tridosha''
                 then acc + 1 else acc)
      in if impact \<noteq> [] \<and> str_includes impact userDosha then acc - 0.5 else acc)"

definition rasaStep :: "string \<Rightarrow> rat \<Rightarrow> string \<Rightarrow> rat" where
  "rasaStep userDosha acc r =
     (if userDosha = ''Pitta'' then
        (let acc = (if r \<in> set [''pungent'', ''sour'', ''salty''] then acc - 1 else acc)
         in if r \<in> set [''sweet'', ''bitter'', ''astringent''] then acc + 1 else acc)
      else if userDosha = ''Kapha'' then
        (let acc = (if r \<in> set [''sweet'', ''sour'', ''salty''] then acc - 1 else acc)
         in if r \<in> set [''pungent'', ''bitter'', ''astringent''] then acc + 1 else acc)
      else if userDosha = ''Vata'' then
        (let acc = (if r \<in> set [''sweet'', ''sour'', ''salty''] then acc + 1 else acc)
         in if r \<in> set [''pungent'', ''bitter'', ''astringent''] then acc - 1 else acc)
      else acc)"

definition gunaStep :: "string \<Rightarrow> rat \<Rightarrow> string \<Rightarrow> rat" where
  "gunaStep userDosha acc g =
     (if userDosha = ''Vata'' then
        (let acc = (if g \<in> set [''dry'', ''light''] then acc - 1 else acc)
         in if g \<in> set [''heavy'', ''unctuous''] then acc + 1 else acc)
      else if userDosha = ''Kapha'' then
        (let acc = (if g \<in> set [''heavy'', ''unctuous''] then acc - 1 else acc)
         in if g \<in> set [''light'', ''dry''] then acc + 1 else acc)
      else acc)"

definition tagList :: "string option \<Rightarrow> string list" where
  \<comment> \<open>\<^verbatim>\<open>typeof x === 'string' ? x.split(',').map((s) => s.trim().toLowerCase()) : []\<close>\<close>
  "tagList x = (case x of None \<Rightarrow> [] | Some t \<Rightarrow> map (\<lambda>s. toLowerCase (trim s)) (split_comma t))"

definition viryaStep :: "string \<Rightarrow> food \<Rightarrow> rat \<Rightarrow> rat" where
  "viryaStep userDosha fd acc =
     (let v = toLowerCase (str_or (or_str (energy fd) (virya fd)) []) in
      if v \<noteq> [] then
        (let acc = (if userDosha = ''Pitta'' \<and> v = ''heating'' then acc - 1 else acc);
             acc = (if userDosha = ''Pitta'' \<and> v = ''cooling'' then acc + 1 else acc);
             acc = (if userDosha = ''Vata'' \<and> v = ''cooling'' then acc - 0.5 else acc)
         in if userDosha = ''Kapha'' \<and> v = ''cooling'' then acc - 0.5 else acc)
      else acc)"

definition scoreDoshaComprehensive :: "string \<Rightarrow> food \<Rightarrow> rat" where
  "scoreDoshaComprehensive userDosha fd =
     (let acc = 0;
          acc = impactStep userDosha fd acc;
          acc = foldl (rasaStep userDosha) acc (tagList (tastes fd));
          acc = foldl (gunaStep userDosha) acc (tagList (qualities fd))
      in viryaStep userDosha fd acc)"

definition scoreSeasonMatch :: "string \<Rightarrow> food \<Rightarrow> rat" where
  "scoreSeasonMatch sn fd =
     (let s = toLowerCase (str_or (season fd) []) in
      if s = [] then 0
      else if str_includes s ''all'' then 0.5
      else if str_includes s sn then 0.5 else 0)"

definition scoreNutrition :: "profile \<Rightarrow> food \<Rightarrow> rat" where
  "scoreNutrition p fd =
     (let goals = health_goals p;
          acc = 0;
          prot = or_num (protein_100g fd) (or_num (protein fd) 0);
          cals = or_num (calories_100g fd) (or_num (calories fd) 0);
          acc = (if ''weight_loss'' \<in> set goals \<or> ''Weight Loss'' \<in> set goals then
                   (let acc = (if prot \<ge> 10 then acc + 1 else acc)
                    in if cals < 150 then acc + 0.5 else acc)
                 else acc);
          acc = (if ''muscle_gain'' \<in> set goals \<or> ''Weight Gain'' \<in> set goals then
                   (let acc = (if prot \<ge> 15 then acc + 1.5 else acc)
                    in if cals > 200 then acc + 0.5 else acc)
                 else acc)
      in if prot \<ge> 8 then acc + 0.5 else acc)"

definition banned :: "profile \<Rightarrow> string \<Rightarrow> bool" where
  \<comment> \<open>\<^verbatim>\<open>banned.has(x)\<close>, the set being the lower-cased disliked names.\<close>
  "banned p x = (x \<in> set (map toLowerCase (disliked p)))"

definition allergic :: "profile \<Rightarrow> string \<Rightarrow> bool" where
  \<comment> \<open>\<^verbatim>\<open>allergies.has(x)\<close>, the set being the lower-cased allergy names.\<close>
  "allergic p x = (x \<in> set (map toLowerCase (allergies p)))"

definition allowedFoods :: "profile \<Rightarrow> food list \<Rightarrow> food list" where
  "allowedFoods p foods =
     filter (\<lambda>fd. \<not> banned p (toLowerCase (str_or (name fd) []))
                 \<and> \<not> allergic p (toLowerCase (str_or (name fd) []))
                 \<and> \<not> isContra p fd) foods"

definition scoreFood :: "profile \<Rightarrow> string \<Rightarrow> string \<Rightarrow> food \<Rightarrow> scored" where
  \<comment> \<open>The function mapped over the allowed foods; the weights are 3, 1, 1 and 2.\<close>
  "scoreFood p dosha sn fd =
     (let sDosha = scoreDoshaComprehensive dosha fd;
          sSeason = scoreSeasonMatch sn fd;
          sNut = scoreNutrition p fd;
          penalty = (if banned p (toLowerCase (str_or (name fd) [])) then 2 else 0)
      in \<lparr>s_f = fd,
          score = sDosha * 3 + sSeason * 1 + sNut * 1 - penalty,
          reasons = \<lparr>r_sDosha = sDosha, r_sSeason = sSeason, r_sNut = sNut, r_season = sn\<rparr>\<rparr>)"

definition scoreAll :: "profile \<Rightarrow> string \<Rightarrow> string \<Rightarrow> food list \<Rightarrow> scored list" where
  \<comment> \<open>\<^verbatim>\<open>allowedFoods.map(...).sort((a, b) => b.score - a.score)\<close>: a stable sort, highest
      score first.\<close>
  "scoreAll p dosha sn foods =
     sort_key (\<lambda>s. - score s) (map (scoreFood p dosha sn) (allowedFoods p foods))"

subsection \<open>ruleEngine.js: the meal packer\<close>

datatype rationale_part =
  Tridoshic
| May_aggravate string
| Balances string
| Tastes string
| Energy string
| Score rat

text \<open>
  A rationale is kept as the list of its parts: the source joins them with a separator and
  prints the score with one decimal.
\<close>

record picked =
  p_f :: food
  p_grams :: int
  p_portion :: string
  p_macros :: food_macros
  p_why :: "rationale_part list"

record pick_state =
  ps_items :: "picked list"
  ps_kcal :: int
  ps_used :: "string option list"

definition inferFoodType :: "food \<Rightarrow> string" where
  "inferFoodType fd =
     (let nm = toLowerCase (str_or (name fd) []);
          nts = toLowerCase (str_or (notes_field fd) []);
          fid = toUpperCase (str_or (food_id fd) [])
      in
      if str_includes nm ''rice'' \<or> str_includes nm ''wheat'' \<or> str_includes nm ''millet''
        then ''grain''
      else if str_includes nm ''dal'' \<or> str_includes nm ''bean'' \<or> str_includes nm ''lentil''
        then ''legume''
      else if str_includes nts ''vegetable'' \<or> startsWith fid ''D'' then ''vegetable''
      else if str_includes nts ''fruit'' \<or> startsWith fid ''E'' then ''fruit''
      else if str_includes nm ''nut'' \<or> str_includes nm ''seed'' then ''nut''
      else if startsWith fid ''K'' then ''dairy''
      else if startsWith fid ''L'' then ''protein''
      else ''other'')"

definition kPer100 :: "food \<Rightarrow> rat" where
  \<comment> \<open>\<^verbatim>\<open>Number(f.calories_100g || f.calories_per_100g || 100)\<close>\<close>
  "kPer100 fd = or_num (calories_100g fd) (or_num (calories_per_100g fd) 100)"

definition baseSizes :: "(string \<times> rat) list" where
  "baseSizes = [(''breakfast'', 120), (''lunch'', 150), (''snack'', 80), (''dinner'', 130)]"

definition baseSize :: "string \<Rightarrow> rat" where
  \<comment> \<open>\<^verbatim>\<open>baseSizes[mealType] || 120\<close>\<close>
  "baseSize mealType = (case map_of baseSizes mealType of Some b \<Rightarrow> b | None \<Rightarrow> 120)"

definition portionDivisor :: "food \<Rightarrow> rat" where
  \<comment> \<open>\<^verbatim>\<open>Math.max(kPer100, 1)\<close>\<close>
  "portionDivisor fd = max (kPer100 fd) 1"

definition calculatePortionSize :: "food \<Rightarrow> rat \<Rightarrow> string \<Rightarrow> int" where
  "calculatePortionSize fd remainingCal mealType =
     (let base = baseSize mealType;
          calculated = js_round ((remainingCal / portionDivisor fd) * 100)
      in max 50 (min calculated (js_round (base * 1.5))))"

definition capitalize :: "string \<Rightarrow> string" where
  \<comment> \<open>\<^verbatim>\<open>s.charAt(0).toUpperCase() + s.slice(1)\<close>\<close>
  "capitalize s = toUpperCase (take 1 s) @ drop 1 s"

definition explainChoice :: "food \<Rightarrow> string \<Rightarrow> rat \<Rightarrow> rationale_part list" where
  "explainChoice fd dosha sc =
     (let doshaTags = impactOf fd;
          parts = (if str_includes (toLowerCase doshaTags) ''balancing'' then [Tridoshic]
                   else if str_includes doshaTags dosha then [May_aggravate dosha]
                   else [Balances dosha]);
          ts = str_or (or_str (tastes fd) (rasa fd)) [];
          parts = (if ts \<noteq> [] then parts @ [Tastes ts] else parts);
          en = str_or (or_str (energy fd) (virya fd)) [];
          parts = (if en \<noteq> [] then parts @ [Energy (capitalize en @ '' energy'')] else parts)
      in parts @ [Score sc])"

definition maxItems :: "string \<Rightarrow> nat" where
  "maxItems mealType = (if mealType = ''snack'' then 2 else 3)"

definition mealPrefs :: "(string \<times> string list) list" where
  "mealPrefs =
     [(''breakfast'', [''grain'', ''fruit'', ''dairy'', ''nut'']),
      (''lunch'', [''grain'', ''legume'', ''vegetable'', ''protein'']),
      (''snack'', [''fruit'', ''nut'', ''dairy'']),
      (''dinner'', [''grain'', ''legume'', ''vegetable'', ''protein''])]"

definition preferredTypes :: "string \<Rightarrow> string list" where
  \<comment> \<open>\<^verbatim>\<open>mealPrefs[mealType] || []\<close>\<close>
  "preferredTypes mealType = (case map_of mealPrefs mealType of Some l \<Rightarrow> l | None \<Rightarrow> [])"

definition foodKey :: "food \<Rightarrow> string option" where
  \<comment> \<open>\<^verbatim>\<open>f.food_id || f.name\<close>, the key of the set \<^verbatim>\<open>used\<close>\<close>
  "foodKey fd = or_str (food_id fd) (name fd)"

definition foodTypeOf :: "food \<Rightarrow> string" where
  \<comment> \<open>\<^verbatim>\<open>f.type || inferFoodType(f)\<close>\<close>
  "foodTypeOf fd = str_or (food_type fd) (inferFoodType fd)"

definition portionKcal :: "food \<Rightarrow> int \<Rightarrow> int" where
  \<comment> \<open>\<^verbatim>\<open>Math.round((kPer100 * grams) / 100)\<close>, the \<^verbatim>\<open>k\<close> of both passes\<close>
  "portionKcal fd grams = js_round ((kPer100 fd * of_int grams) / 100)"

definition stopNow :: "rat \<Rightarrow> string \<Rightarrow> pick_state \<Rightarrow> bool" where
  \<comment> \<open>\<^verbatim>\<open>items.length >= maxItems || kcal >= targetCal * 1.1\<close>, the \<^verbatim>\<open>break\<close> that opens
      the body of both loops\<close>
  "stopNow targetCal mealType st =
     (length (ps_items st) \<ge> maxItems mealType \<or> of_int (ps_kcal st) \<ge> targetCal * 1.1)"

definition addItem :: "rat \<Rightarrow> string \<Rightarrow> string \<Rightarrow> scored \<Rightarrow> pick_state \<Rightarrow> pick_state" where
  \<comment> \<open>\<^verbatim>\<open>items.push(...); kcal += k; used.add(f.food_id || f.name)\<close>\<close>
  "addItem targetCal mealType dosha s st =
     (let fd = s_f s;
          grams = calculatePortionSize fd (targetCal - of_int (ps_kcal st)) mealType;
          k = portionKcal fd grams;
          macros = calculateFoodMacros fd grams
      in \<lparr>ps_items = ps_items st @
            [\<lparr>p_f = fd, p_grams = grams, p_portion = show_int grams @ ''g'', p_macros = macros,
              p_why = explainChoice fd dosha (score s)\<rparr>],
          ps_kcal = ps_kcal st + k,
          ps_used = foodKey fd # ps_used st\<rparr>)"

fun firstPass :: "rat \<Rightarrow> string \<Rightarrow> string \<Rightarrow> scored list \<Rightarrow> pick_state \<Rightarrow> pick_state" where
  "firstPass targetCal mealType dosha [] st = st"
| "firstPass targetCal mealType dosha (s # rest) st =
     (if stopNow targetCal mealType st then st
      else if foodKey (s_f s) \<in> set (ps_used st) then firstPass targetCal mealType dosha rest st
      else if preferredTypes mealType \<noteq> [] \<and> foodTypeOf (s_f s) \<notin> set (preferredTypes mealType)
        then firstPass targetCal mealType dosha rest st
      else if of_int (ps_kcal st
                + portionKcal (s_f s)
                    (calculatePortionSize (s_f s) (targetCal - of_int (ps_kcal st)) mealType))
              \<le> targetCal * 1.15
        then firstPass targetCal mealType dosha rest (addItem targetCal mealType dosha s st)
      else firstPass targetCal mealType dosha rest st)"

fun secondPass :: "rat \<Rightarrow> string \<Rightarrow> string \<Rightarrow> scored list \<Rightarrow> pick_state \<Rightarrow> pick_state" where
  "secondPass targetCal mealType dosha [] st = st"
| "secondPass targetCal mealType dosha (s # rest) st =
     (if stopNow targetCal mealType st then st
      else if foodKey (s_f s) \<in> set (ps_used st) then secondPass targetCal mealType dosha rest st
      else (let st' = addItem targetCal mealType dosha s st in
            if of_int (ps_kcal st') \<ge> targetCal * 0.9 then st'
            else secondPass targetCal mealType dosha rest st'))"

definition runSecond :: "rat \<Rightarrow> pick_state \<Rightarrow> bool" where
  \<comment> \<open>\<^verbatim>\<open>items.length === 0 || kcal < targetCal * 0.7\<close>, the guard of the second loop\<close>
  "runSecond targetCal st = (ps_items st = [] \<or> of_int (ps_kcal st) < targetCal * 0.7)"

definition emptyPick :: pick_state where
  "emptyPick = \<lparr>ps_items = [], ps_kcal = 0, ps_used = []\<rparr>"

definition pickFoodForMeal :: "scored list \<Rightarrow> rat \<Rightarrow> string \<Rightarrow> string \<Rightarrow> pick_state" where
  \<comment> \<open>The source returns \<^verbatim>\<open>{ items, kcal }\<close>; the state returned here also holds the
      local set \<^verbatim>\<open>used\<close>.\<close>
  "pickFoodForMeal scoredFoods targetCal mealType dosha =
     (let st = firstPass targetCal mealType dosha scoredFoods emptyPick in
      if runSecond targetCal st then secondPass targetCal mealType dosha scoredFoods st else st)"

subsection \<open>ruleEngine.js: the plan\<close>

record plan_item =
  it_food_id :: "string option"
  it_name :: "string option"
  it_portion :: string
  it_grams :: int
  it_macros :: food_macros
  it_why :: "rationale_part list"

record meal =
  meal_type :: string
  meal_items :: "plan_item list"
  meal_total_calories :: int
  explanations :: "rationale_part list list"

record plan =
  plan_season :: string
  dosha_target :: string
  target_calories :: rat
  total_calories :: int
  macro_targets :: macro_split
  meals :: "meal list"
  explanation_logs :: "string list"

definition toPlanItem :: "picked \<Rightarrow> plan_item" where
  "toPlanItem pk =
     \<lparr>it_food_id = or_str (food_id (p_f pk)) (or_str (id_field (p_f pk)) (or_str (oid (p_f pk)) None)),
      it_name = name (p_f pk),
      it_portion = p_portion pk,
      it_grams = p_grams pk,
      it_macros = p_macros pk,
      it_why = p_why pk\<rparr>"

definition buildMeal :: "scored list \<Rightarrow> string \<Rightarrow> int list \<Rightarrow> nat \<times> string \<Rightarrow> meal" where
  \<comment> \<open>The body of \<^verbatim>\<open>mealTypes.forEach((mt, idx) => ...)\<close>, but for the running total.\<close>
  "buildMeal scoredFoods dosha mealCalories im =
     (let idx = fst im; mt = snd im;
          targetMealCal = of_int (mealCalories ! idx);
          pick = pickFoodForMeal scoredFoods targetMealCal mt dosha;
          its = map toPlanItem (ps_items pick);
          mealTotal = foldl (\<lambda>sum it. sum + m_calories (it_macros it)) 0 its
      in \<lparr>meal_type = mt,
          meal_items = its,
          meal_total_calories = mealTotal,
          explanations = filter (\<lambda>w. w \<noteq> []) (map it_why its)\<rparr>)"

definition mealTypesOf :: "string option \<Rightarrow> string list" where
  \<comment> \<open>The parameter default \<^verbatim>\<open>plan_type = 'daily'\<close> stands for a missing plan type.\<close>
  "mealTypesOf plan_type =
     (let pt = (case plan_type of None \<Rightarrow> ''daily'' | Some x \<Rightarrow> x) in
      if pt = ''daily'' then [''breakfast'', ''lunch'', ''snack'', ''dinner'']
      else [''breakfast'', ''lunch'', ''dinner''])"

definition buildPlan ::
  "nat \<Rightarrow> int \<Rightarrow> profile \<Rightarrow> food list \<Rightarrow> string option \<Rightarrow> rat option \<Rightarrow> plan" where
  \<comment> \<open>\<open>month\<close> is \<^verbatim>\<open>new Date().getMonth() + 1\<close> and \<open>now\<close> is \<^verbatim>\<open>Date.now()\<close>.\<close>
  "buildPlan month now p foods plan_type targetCalories =
     (let dosha = (case dosha_result p of
                     None \<Rightarrow> inferDosha p
                   | Some d \<Rightarrow> if d = [] then inferDosha p else d);
          sn = getSeasonFromMonth month;
          target = (case targetCalories of
                      Some t \<Rightarrow> t
                    | None \<Rightarrow> of_int (calculateTargetCalories now p));
          scoredFoods = scoreAll p dosha sn foods;
          macroTargets = getMacroTargets p;
          mealTypes = mealTypesOf plan_type;
          mealCalories = distributeMealCalories target (length mealTypes);
          ms = map (buildMeal scoredFoods dosha mealCalories) (enumerate 0 mealTypes);
          totalCals = foldl (\<lambda>acc m. acc + meal_total_calories m) 0 ms
      in \<lparr>plan_season = sn,
          dosha_target = dosha,
          target_calories = target,
          total_calories = totalCals,
          macro_targets = macroTargets,
          meals = ms,
          explanation_logs = []\<rparr>)"

subsection \<open>The data of tests/ruleEngine.test.js\<close>

definition noFood :: food where
  \<comment> \<open>The object with no property.\<close>
  "noFood =
     \<lparr>food_id = None, id_field = None, oid = None, name = None, dosha_impact = None,
      dosha_tags = None, tastes = None, rasa = None, qualities = None, energy = None,
      virya = None, season = None, calories_100g = None, calories_per_100g = None,
      calories = None, protein_100g = None, protein = None, carbs_100g = None,
      fat_100g = None, food_type = None, notes_field = None\<rparr>"

definition moongDal :: food where
  "moongDal = noFood
     \<lparr>food_id := Some ''f_035'', name := Some ''Moong Dal'',
      dosha_impact := Some ''Vata,Pitta,Kapha,Balancing'', tastes := Some ''sweet, astringent'',
      qualities := Some ''light, dry'', energy := Some ''cooling'', season := Some ''all'',
      calories_100g := Some 326, carbs_100g := Some 52.59, protein_100g := Some 23.88,
      fat_100g := Some 1.35, food_type := Some ''legume''\<rparr>"

definition basmatiRice :: food where
  "basmatiRice = noFood
     \<lparr>food_id := Some ''f_016'', name := Some ''Basmati Rice'',
      dosha_impact := Some ''Vata,Pitta,Kapha'', tastes := Some ''sweet'',
      qualities := Some ''heavy, unctuous'', energy := Some ''cooling'', season := Some ''all'',
      calories_100g := Some 356, carbs_100g := Some 78.24, protein_100g := Some 7.94,
      fat_100g := Some 0.52, food_type := Some ''grain''\<rparr>"

definition bottleGourd :: food where
  "bottleGourd = noFood
     \<lparr>food_id := Some ''d_091'', name := Some ''Bottle Gourd'',
      dosha_impact := Some ''Pitta'', tastes := Some ''sweet'',
      qualities := Some ''light, unctuous'', energy := Some ''cooling'', season := Some ''summer'',
      calories_100g := Some 14, carbs_100g := Some 2.53, protein_100g := Some 0.42,
      fat_100g := Some 0.12, food_type := Some ''vegetable''\<rparr>"

definition banana :: food where
  "banana = noFood
     \<lparr>food_id := Some ''e_171'', name := Some ''Banana'',
      dosha_impact := Some ''Vata,Pitta'', tastes := Some ''sweet'',
      qualities := Some ''heavy, unctuous'', energy := Some ''cooling'', season := Some ''all'',
      calories_100g := Some 111, carbs_100g := Some 24.95, protein_100g := Some 1.25,
      fat_100g := Some 0.32, food_type := Some ''fruit''\<rparr>"

definition almond :: food where
  "almond = noFood
     \<lparr>food_id := Some ''f_223'', name := Some ''Almond'',
      dosha_impact := Some ''Vata,Pitta'', tastes := Some ''sweet'',
      qualities := Some ''heavy, unctuous'', energy := Some ''heating'', season := Some ''all'',
      calories_100g := Some 655, carbs_100g := Some 6.93, protein_100g := Some 20.80,
      fat_100g := Some 58.93, food_type := Some ''nut''\<rparr>"

definition sampleFoods :: "food list" where
  "sampleFoods = [moongDal, basmatiRice, bottleGourd, banana, almond]"

definition noProfile :: profile where
  \<comment> \<open>The profile with no property: every default applies.\<close>
  "noProfile =
     \<lparr>dosha_result = None, sex = None, height_cm = None, weight_kg = None, age_years = None,
      dob = None, activity_level = None, health_goals = [], disliked = [], allergies = [],
      medical_conditions = []\<rparr>"

definition sampleProfile :: profile where
  "sampleProfile = noProfile
     \<lparr>dosha_result := Some ''Pitta'', age_years := Some 30, sex := Some ''M'',
      height_cm := Some 175, weight_kg := Some 75, activity_level := Some ''moderate'',
      health_goals := [''maintain_health'']\<rparr>"


definition dislikeProfile :: profile where
  "dislikeProfile = sampleProfile\<lparr>disliked := [''BANANA'']\<rparr>"

definition tridoshicFood :: food where
  "tridoshicFood = noFood\<lparr>dosha_impact := Some ''Tridoshic''\<rparr>"

definition winterRice :: food where
  "winterRice = basmatiRice
     \<lparr>food_id := Some ''f_017'', name := Some ''Winter Rice'', season := Some ''winter''\<rparr>"

definition monsoonRice :: food where
  "monsoonRice = basmatiRice
     \<lparr>food_id := Some ''f_018'', name := Some ''Monsoon Rice'', season := Some ''monsoon''\<rparr>"


subsection \<open>Notions used to state the properties\<close>

definition withoutImpact :: "food \<Rightarrow> food" where
  \<comment> \<open>The same food with no dosha-impact tag.\<close>
  "withoutImpact fd = fd\<lparr>dosha_impact := None, dosha_tags := None\<rparr>"

definition replaceGoal :: "string \<Rightarrow> string \<Rightarrow> string list \<Rightarrow> string list" where
  \<comment> \<open>Every occurrence of one spelling of a goal replaced by another.\<close>
  "replaceGoal old new goals = map (\<lambda>g. if g = old then new else g) goals"







section \<open>Properties of the nutrition calculator\<close>

subsection \<open>Rounding\<close>




subsection \<open>Target calories\<close>




text \<open>
  Claim C6 says that the title-case spelling of each of the three goals is an alias of the
  underscore spelling. For muscle gain it is not: with every other property missing, the
  goal list \<^verbatim>\<open>['muscle_gain']\<close> gives the 10% surplus, 2801, and the goal list
  \<^verbatim>\<open>['Muscle Gain']\<close> gives the maintenance value, 2546.
\<close>

theorem calculateTargetCalories_muscle_gain_alias:
  "calculateTargetCalories 0 (noProfile\<lparr>health_goals := [''muscle_gain'']\<rparr>) = 2801
   \<and> calculateTargetCalories 0 (noProfile\<lparr>health_goals := [''Muscle Gain'']\<rparr>) = 2546"
  by code_simp

subsection \<open>Macro targets\<close>

text \<open>
  Claim C9: for every profile, the three percentages that \<open>getMacroTargets\<close> returns sum
  to 100.
\<close>

theorem getMacroTargets_sum:
  "protein_pct (getMacroTargets p) + carbs_pct (getMacroTargets p)
     + fats_pct (getMacroTargets p) = 100"
  by (simp add: getMacroTargets_def Let_def)

section \<open>Properties of the rule engine\<close>

subsection \<open>Portion size\<close>





subsection \<open>Shape of the plan\<close>

lemma foldl_add_sum_list:
  fixes a :: int
  shows "foldl (\<lambda>acc m. acc + f m) a xs = a + sum_list (map f xs)"
  by (induction xs arbitrary: a) simp_all

text \<open>
  Claim C2: the plan has 4 meal slots when the plan type is \<^verbatim>\<open>daily\<close> (also by default)
  and 3 for any other plan type, and its total calories are the sum of the total calories
  of its meal slots. This holds for every catalog, the empty one too.
\<close>

theorem buildPlan_slots_and_total:
  "length (meals (buildPlan month now p foods plan_type targetCalories)) =
     (if plan_type = None \<or> plan_type = Some ''daily'' then 4 else 3)
   \<and> total_calories (buildPlan month now p foods plan_type targetCalories) =
       sum_list (map meal_total_calories
         (meals (buildPlan month now p foods plan_type targetCalories)))"
  by (cases plan_type) (simp_all add: buildPlan_def Let_def mealTypesOf_def foldl_add_sum_list)

theorem buildPlan_slots_and_total_witness:
  "length (meals (buildPlan 11 0 sampleProfile sampleFoods (Some ''daily'') (Some 2000))) = 4
   \<and> length (meals (buildPlan 11 0 sampleProfile sampleFoods (Some ''weekly'') (Some 2000))) = 3
   \<and> total_calories (buildPlan 11 0 sampleProfile sampleFoods (Some ''daily'') (Some 2000)) =
       sum_list (map meal_total_calories
         (meals (buildPlan 11 0 sampleProfile sampleFoods (Some ''daily'') (Some 2000))))"
  using buildPlan_slots_and_total [of 11 0 sampleProfile sampleFoods "Some ''daily''" "Some 2000"]
    buildPlan_slots_and_total [of 11 0 sampleProfile sampleFoods "Some ''weekly''" "Some 2000"]
  by simp

subsection \<open>Dependence on the clock\<close>

lemma calculateBMR_clock:
  "age_years p \<noteq> None \<or> dob p = None \<Longrightarrow> calculateBMR now p = calculateBMR now' p"
  by (auto simp add: calculateBMR_def Let_def split: option.splits)

lemma calculateTargetCalories_clock:
  "age_years p \<noteq> None \<or> dob p = None \<Longrightarrow>
     calculateTargetCalories now p = calculateTargetCalories now' p"
  using calculateBMR_clock [of p now now']
  by (simp add: calculateTargetCalories_def calculateTDEE_def)

text \<open>
  Claim C4 says that the plan is a function of the profile, the catalog, the plan type and
  the target calories alone, with no dependence on the clock. It is not: for the same
  profile, catalog, plan type and target, a call in January serves the rice tagged for
  winter in every slot and a call in July serves the rice tagged for the monsoon.
\<close>

theorem buildPlan_depends_on_month:
  "map (map it_name \<circ> meal_items)
      (meals (buildPlan 1 0 sampleProfile [winterRice, monsoonRice] None (Some 2000)))
     = [[Some ''Winter Rice''], [Some ''Winter Rice''], [Some ''Winter Rice''],
        [Some ''Winter Rice'']]
   \<and> map (map it_name \<circ> meal_items)
      (meals (buildPlan 7 0 sampleProfile [winterRice, monsoonRice] None (Some 2000)))
     = [[Some ''Monsoon Rice''], [Some ''Monsoon Rice''], [Some ''Monsoon Rice''],
        [Some ''Monsoon Rice'']]"
  by code_simp

text \<open>
  Claim C4, amended: the plan is a function of the profile, the catalog, the plan type, the
  target calories and the clock. Of the clock it reads the season of the current month,
  and, when no target is given and the profile has a birth date and no age, the current
  time. Two calls that agree on those give the same plan.
\<close>

theorem buildPlan_deterministic:
  assumes "getSeasonFromMonth month = getSeasonFromMonth month'"
    and "targetCalories \<noteq> None \<or> age_years p \<noteq> None \<or> dob p = None \<or> now = now'"
  shows "buildPlan month now p foods plan_type targetCalories =
         buildPlan month' now' p foods plan_type targetCalories"
proof (cases targetCalories)
  case None
  with assms(2) have "calculateTargetCalories now p = calculateTargetCalories now' p"
    using calculateTargetCalories_clock [of p now now'] by auto
  with None assms(1) show ?thesis by (simp add: buildPlan_def)
next
  case (Some t)
  with assms(1) show ?thesis by (simp add: buildPlan_def)
qed

theorem buildPlan_deterministic_witness:
  "getSeasonFromMonth 3 = getSeasonFromMonth 5
   \<and> buildPlan 3 0 sampleProfile sampleFoods None None =
     buildPlan 5 86400000 sampleProfile sampleFoods None None"
proof -
  have s: "getSeasonFromMonth 3 = getSeasonFromMonth 5"
    by (simp add: getSeasonFromMonth_def)
  have a: "(None :: rat option) \<noteq> None \<or> age_years sampleProfile \<noteq> None
      \<or> dob sampleProfile = None \<or> (0 :: int) = 86400000"
    by (simp add: sampleProfile_def noProfile_def)
  show ?thesis
    using s buildPlan_deterministic [OF s a, of sampleFoods None] by simp
qed

subsection \<open>The dosha-impact term\<close>

lemma rasaStep_shift: "rasaStep d (a + c) r = rasaStep d a r + c"
  by (simp add: rasaStep_def Let_def)

lemma gunaStep_shift: "gunaStep d (a + c) g = gunaStep d a g + c"
  by (simp add: gunaStep_def Let_def)

lemma viryaStep_shift: "viryaStep d fd (a + c) = viryaStep d fd a + c"
  by (simp add: viryaStep_def Let_def)

lemma foldl_rasaStep_shift: "foldl (rasaStep d) (a + c) rs = foldl (rasaStep d) a rs + c"
  by (induction rs arbitrary: a) (simp_all add: rasaStep_shift)

lemma foldl_gunaStep_shift: "foldl (gunaStep d) (a + c) gs = foldl (gunaStep d) a gs + c"
  by (induction gs arbitrary: a) (simp_all add: gunaStep_shift)

lemma impactStep_withoutImpact: "impactStep d (withoutImpact fd) 0 = 0"
  by (simp add: impactStep_def impactOf_def withoutImpact_def toLowerCase_def Let_def)

lemma scoreDoshaComprehensive_split:
  "scoreDoshaComprehensive d fd =
     scoreDoshaComprehensive d (withoutImpact fd) + impactStep d fd 0"
proof -
  let ?rest = "\<lambda>a. viryaStep d fd
      (foldl (gunaStep d) (foldl (rasaStep d) a (tagList (tastes fd))) (tagList (qualities fd)))"
  have "scoreDoshaComprehensive d fd = ?rest (0 + impactStep d fd 0)"
    by (simp add: scoreDoshaComprehensive_def Let_def)
  also have "\<dots> = ?rest 0 + impactStep d fd 0"
    by (simp only: foldl_rasaStep_shift foldl_gunaStep_shift viryaStep_shift)
  also have "?rest 0 = scoreDoshaComprehensive d (withoutImpact fd)"
    by (simp add: scoreDoshaComprehensive_def Let_def impactStep_withoutImpact)
      (simp add: withoutImpact_def viryaStep_def)
  finally show ?thesis .
qed

lemma str_includes_nonempty: "str_includes s d \<Longrightarrow> d \<noteq> [] \<Longrightarrow> s \<noteq> []"
  by (cases s) simp_all

text \<open>
  Claim C7 says that a tag string containing \<^verbatim>\<open>Tridoshic\<close> earns the bonus of 1. It does
  not: the pattern of the source is \<^verbatim>\<open>/balancing|tridosha/i\<close>, and a food whose only tag
  is \<^verbatim>\<open>Tridoshic\<close> scores what it scores with no tag at all.
\<close>

theorem scoreDoshaComprehensive_tridoshic:
  "str_includes (impactOf tridoshicFood) ''Tridoshic''
   \<and> scoreDoshaComprehensive ''Vata'' tridoshicFood =
     scoreDoshaComprehensive ''Vata'' (withoutImpact tridoshicFood)"
  by code_simp

text \<open>
  Claim C7, amended: the dosha-impact tags of a food add 1 to its dosha score exactly when
  the tag string contains \<^verbatim>\<open>balancing\<close> or \<^verbatim>\<open>tridosha\<close> in any letter case, and subtract
  0.5 exactly when the tag string contains the dosha literal of the user; they change the
  score in no other way.
\<close>

theorem scoreDoshaComprehensive_impact_term:
  assumes "userDosha \<noteq> []"
  shows "scoreDoshaComprehensive userDosha fd =
     scoreDoshaComprehensive userDosha (withoutImpact fd)
     + (if str_includes (toLowerCase (impactOf fd)) ''balancing''
           \<or> str_includes (toLowerCase (impactOf fd)) ''tridosha'' then 1 else 0)
     - (if str_includes (impactOf fd) userDosha then 1 / 2 else 0)"
proof -
  have "impactStep userDosha fd 0 =
      (if str_includes (toLowerCase (impactOf fd)) ''balancing''
           \<or> str_includes (toLowerCase (impactOf fd)) ''tridosha'' then 1 else 0)
     - (if str_includes (impactOf fd) userDosha then 1 / 2 else 0)"
    using assms str_includes_nonempty [of "impactOf fd" userDosha]
    by (auto simp add: impactStep_def Let_def)
  then show ?thesis by (simp add: scoreDoshaComprehensive_split [of userDosha fd])
qed

theorem scoreDoshaComprehensive_impact_term_witness:
  "''Pitta'' \<noteq> [] \<and> scoreDoshaComprehensive ''Pitta'' moongDal =
     scoreDoshaComprehensive ''Pitta'' (withoutImpact moongDal) + 1 - 1 / 2"
proof -
  have a: "str_includes (toLowerCase (impactOf moongDal)) ''balancing''" by code_simp
  have b: "str_includes (impactOf moongDal) ''Pitta''" by code_simp
  show ?thesis
    using scoreDoshaComprehensive_impact_term [of "''Pitta''" moongDal] a b by simp
qed

subsection \<open>Where the items of a plan come from\<close>

lemma foods_addItem:
  "p_f ` set (ps_items (addItem t mt d s st)) = insert (s_f s) (p_f ` set (ps_items st))"
  by (simp add: addItem_def Let_def)

lemma firstPass_foods:
  "p_f ` set (ps_items (firstPass t mt d xs st)) \<subseteq> p_f ` set (ps_items st) \<union> s_f ` set xs"
proof (induction xs arbitrary: st)
  case Nil
  show ?case by simp
next
  case (Cons s rest)
  have a: "p_f ` set (ps_items (firstPass t mt d rest st))
      \<subseteq> p_f ` set (ps_items st) \<union> s_f ` set (s # rest)"
    using Cons.IH [of st] by auto
  have b: "p_f ` set (ps_items (firstPass t mt d rest (addItem t mt d s st)))
      \<subseteq> p_f ` set (ps_items st) \<union> s_f ` set (s # rest)"
    using Cons.IH [of "addItem t mt d s st"] by (auto simp add: foods_addItem)
  show ?case using a b by (simp only: firstPass.simps split: if_split) blast
qed

lemma secondPass_foods:
  "p_f ` set (ps_items (secondPass t mt d xs st)) \<subseteq> p_f ` set (ps_items st) \<union> s_f ` set xs"
proof (induction xs arbitrary: st)
  case Nil
  show ?case by simp
next
  case (Cons s rest)
  have a: "p_f ` set (ps_items (secondPass t mt d rest st))
      \<subseteq> p_f ` set (ps_items st) \<union> s_f ` set (s # rest)"
    using Cons.IH [of st] by auto
  have b: "p_f ` set (ps_items (secondPass t mt d rest (addItem t mt d s st)))
      \<subseteq> p_f ` set (ps_items st) \<union> s_f ` set (s # rest)"
    using Cons.IH [of "addItem t mt d s st"] by (auto simp add: foods_addItem)
  have c: "p_f ` set (ps_items (addItem t mt d s st))
      \<subseteq> p_f ` set (ps_items st) \<union> s_f ` set (s # rest)"
    by (auto simp add: foods_addItem)
  show ?case using a b c by (simp only: secondPass.simps Let_def split: if_split) blast
qed

lemma pickFoodForMeal_foods:
  "p_f ` set (ps_items (pickFoodForMeal sc t mt d)) \<subseteq> s_f ` set sc"
proof -
  let ?st = "firstPass t mt d sc emptyPick"
  have a: "p_f ` set (ps_items ?st) \<subseteq> s_f ` set sc"
    using firstPass_foods [of t mt d sc emptyPick] by (simp add: emptyPick_def)
  have b: "p_f ` set (ps_items (secondPass t mt d sc ?st)) \<subseteq> s_f ` set sc"
    using secondPass_foods [of t mt d sc ?st] a by blast
  show ?thesis using a b by (simp add: pickFoodForMeal_def Let_def)
qed

lemma scoreAll_foods: "s_f ` set (scoreAll p d sn foods) = set (allowedFoods p foods)"
  by (simp add: scoreAll_def image_image scoreFood_def Let_def)

lemma plan_item_food:
  assumes "m \<in> set (meals (buildPlan month now p foods plan_type targetCalories))"
    and "it \<in> set (meal_items m)"
  shows "\<exists>fd \<in> set (allowedFoods p foods). it_name it = name fd"
proof -
  from assms(1) obtain sc d mc im where m: "m = buildMeal sc d mc im"
    and sc: "s_f ` set sc = set (allowedFoods p foods)"
    by (auto simp add: buildPlan_def Let_def scoreAll_foods)
  from assms(2) m obtain pk
    where pk: "pk \<in> set (ps_items (pickFoodForMeal sc (of_int (mc ! fst im)) (snd im) d))"
      and it: "it = toPlanItem pk"
    by (auto simp add: buildMeal_def Let_def)
  from pk have "p_f pk \<in> s_f ` set sc"
    using pickFoodForMeal_foods [of sc "of_int (mc ! fst im)" "snd im" d] by blast
  with sc have "p_f pk \<in> set (allowedFoods p foods)" by simp
  moreover have "it_name it = name (p_f pk)" using it by (simp add: toPlanItem_def)
  ultimately show ?thesis by blast
qed

subsection \<open>Allergies\<close>



subsection \<open>Disliked foods\<close>

lemma allowedFoods_not_banned:
  "fd \<in> set (allowedFoods p foods) \<Longrightarrow> \<not> banned p (toLowerCase (str_or (name fd) []))"
  by (simp add: allowedFoods_def)

lemma scoreAll_no_penalty:
  assumes "s \<in> set (scoreAll p d sn foods)"
  shows "score s = scoreDoshaComprehensive d (s_f s) * 3 + scoreSeasonMatch sn (s_f s)
      + scoreNutrition p (s_f s)"
proof -
  from assms obtain fd where fd: "fd \<in> set (allowedFoods p foods)" and s: "s = scoreFood p d sn fd"
    by (auto simp add: scoreAll_def)
  from fd have "\<not> banned p (toLowerCase (str_or (name fd) []))"
    by (rule allowedFoods_not_banned)
  with s show ?thesis by (simp add: scoreFood_def Let_def)
qed

lemma buildPlan_no_disliked:
  assumes "m \<in> set (meals (buildPlan month now p foods plan_type targetCalories))"
    and "it \<in> set (meal_items m)"
    and "a \<in> set (disliked p)"
  shows "toLowerCase (str_or (it_name it) []) \<noteq> toLowerCase a"
proof -
  from plan_item_food [OF assms(1,2)] obtain fd where fd: "fd \<in> set (allowedFoods p foods)"
    and nm: "it_name it = name fd" by blast
  from fd have "\<not> banned p (toLowerCase (str_or (name fd) []))"
    by (rule allowedFoods_not_banned)
  with assms(3) nm show ?thesis by (auto simp add: banned_def)
qed

text \<open>
  Claim C1 says that a food whose name matches an entry of the disliked list stays among
  the candidates, is scored with a penalty of 2 and may appear in the plan. In the source
  the filter that opens \<open>buildPlan\<close> removes it: with \<^verbatim>\<open>BANANA\<close> disliked and a catalog
  that holds the banana alone, no food is left and every slot is empty, whereas the same
  call with nothing disliked serves the banana in every slot.
\<close>

theorem buildPlan_removes_disliked:
  "allowedFoods dislikeProfile [banana] = []
   \<and> map (map it_name \<circ> meal_items)
       (meals (buildPlan 11 0 dislikeProfile [banana] None (Some 2000))) = [[], [], [], []]
   \<and> map (map it_name \<circ> meal_items)
       (meals (buildPlan 11 0 sampleProfile [banana] None (Some 2000)))
     = [[Some ''Banana''], [Some ''Banana''], [Some ''Banana''], [Some ''Banana'']]"
  by code_simp

subsection \<open>Goal aliases\<close>

lemma replaceGoal_mem:
  "old \<noteq> new \<Longrightarrow> g \<noteq> old \<Longrightarrow> g \<noteq> new \<Longrightarrow>
     g \<in> set (replaceGoal old new goals) \<longleftrightarrow> g \<in> set goals"
  by (auto simp add: replaceGoal_def)

lemma replaceGoal_alias:
  "old \<noteq> new \<Longrightarrow>
     (old \<in> set (replaceGoal old new goals) \<or> new \<in> set (replaceGoal old new goals))
       \<longleftrightarrow> (old \<in> set goals \<or> new \<in> set goals)"
  by (auto simp add: replaceGoal_def)

lemma calculateTDEE_goals:
  "calculateTDEE now (p\<lparr>health_goals := gs\<rparr>) = calculateTDEE now p"
  by (simp add: calculateTDEE_def calculateBMR_def activityFactor_def split: option.splits)

lemma weight_loss_alias:
  "calculateTargetCalories now
     (p\<lparr>health_goals := replaceGoal ''weight_loss'' ''Weight Loss'' (health_goals p)\<rparr>)
   = calculateTargetCalories now p"
  using replaceGoal_alias [of "''weight_loss''" "''Weight Loss''" "health_goals p"]
    replaceGoal_mem [of "''weight_loss''" "''Weight Loss''" _ "health_goals p"]
  by (simp add: calculateTargetCalories_def calculateTDEE_goals Let_def)

lemma weight_gain_alias:
  "calculateTargetCalories now
     (p\<lparr>health_goals := replaceGoal ''weight_gain'' ''Weight Gain'' (health_goals p)\<rparr>)
   = calculateTargetCalories now p"
  using replaceGoal_alias [of "''weight_gain''" "''Weight Gain''" "health_goals p"]
    replaceGoal_mem [of "''weight_gain''" "''Weight Gain''" _ "health_goals p"]
  by (simp add: calculateTargetCalories_def calculateTDEE_goals Let_def)

subsection \<open>The two passes of the meal packer\<close>














end
